theory Spec2Isabelle
  imports Main "HOL-Library.Word"
begin

section \<open>The application registry builder of package sm\<close>

text \<open>
  The embedding follows \<^verbatim>\<open>diam/sm/sm.go\<close>. Go's \<^verbatim>\<open>uint32\<close> is \<^typ>\<open>32 word\<close>, a Go
  \<^verbatim>\<open>string\<close> is a \<^typ>\<open>string\<close>, and a slice that may be \<^verbatim>\<open>nil\<close> is an option of a
  list: \<^term>\<open>None\<close> is the nil slice, \<^term>\<open>Some []\<close> the empty one.
\<close>

subsection \<open>Data\<close>

text \<open>
  \<^verbatim>\<open>dict.Vendor\<close> and \<^verbatim>\<open>dict.App\<close> are declared in package dict; the records below
  hold the fields that \<^verbatim>\<open>sm.go\<close> reads (\<^verbatim>\<open>ID\<close>, \<^verbatim>\<open>Name\<close>, \<^verbatim>\<open>Type\<close>, \<^verbatim>\<open>Vendor\<close>).
\<close>

record Vendor =
  vendor_ID :: "32 word"
  vendor_Name :: string

record App =
  app_ID :: "32 word"
  app_Type :: string
  app_Name :: string
  app_Vendor :: "Vendor list"

text \<open>\<^verbatim>\<open>type SupportedApp struct { ID uint32; AppType string; Vendor uint32 }\<close>\<close>

record SupportedApp =
  sa_ID :: "32 word"
  sa_AppType :: string
  sa_Vendor :: "32 word"

text \<open>
  A Go \<^verbatim>\<open>map[string]string\<close> is an association list that holds every key at most
  once; \<^verbatim>\<open>m[k] = v\<close> replaces the value of a key that is present and adds the pair
  otherwise. Go leaves the order of a \<^verbatim>\<open>range\<close> over a map open: the order of the list
  stands for one such order, and \<open>range_appFilters_order\<close> below shows that the code's
  result does not depend on it.
\<close>

type_synonym gomap = "(string \<times> string) list"

fun map_assign :: "gomap \<Rightarrow> string \<Rightarrow> string \<Rightarrow> gomap" where
  "map_assign [] k v = [(k, v)]"
| "map_assign ((k', v') # m) k v =
     (if k' = k then (k, v) # m else (k', v') # map_assign m k v)"

subsection \<open>Library functions\<close>

text \<open>
  \<^verbatim>\<open>strings.Split(s, sep)\<close> for a separator of one byte. The library scans \<open>s\<close> from
  the left, cuts a piece at every occurrence of the separator and ends with the rest:
  one piece more than there are occurrences, and the one empty piece for the empty
  string. \<open>Split_from\<close> is that scan, with the piece read so far.
\<close>

fun Split_from :: "string \<Rightarrow> char \<Rightarrow> string \<Rightarrow> string list" where
  "Split_from [] sep piece = [piece]"
| "Split_from (c # cs) sep piece =
     (if c = sep then piece # Split_from cs sep [] else Split_from cs sep (piece @ [c]))"

definition Split :: "string \<Rightarrow> char \<Rightarrow> string list" where
  "Split s sep = Split_from s sep []"

text \<open>
  \<^verbatim>\<open>strconv.Itoa\<close>: the decimal digits of an integer, with a minus sign when negative.
\<close>

definition digit_char :: "int \<Rightarrow> char" where
  "digit_char d = ''0123456789'' ! nat d"

function Itoa_digits :: "int \<Rightarrow> string" where
  "Itoa_digits n =
     (if n < 10 then [digit_char n] else Itoa_digits (n div 10) @ [digit_char (n mod 10)])"
  by pat_completeness auto
termination
  by (relation "measure nat") auto

declare Itoa_digits.simps [simp del]

definition Itoa :: "int \<Rightarrow> string" where
  "Itoa i = (if i < 0 then CHR ''-'' # Itoa_digits (- i) else Itoa_digits i)"

subsection \<open>computeAppFilters\<close>

text \<open>
  The body of the loop \<^verbatim>\<open>for _, appStr := range supportedApps\<close>, and the loop.
\<close>

definition filter_step :: "gomap \<Rightarrow> string \<Rightarrow> gomap" where
  "filter_step filterApps appStr =
     (let parts = Split appStr (CHR ''.'') in
      if length parts > 1 then map_assign filterApps (parts ! 1) (parts ! 0)
      else map_assign filterApps (parts ! 0) [])"

fun filterApps_loop :: "string list \<Rightarrow> gomap \<Rightarrow> gomap" where
  "filterApps_loop [] filterApps = filterApps"
| "filterApps_loop (appStr # rest) filterApps =
     filterApps_loop rest (filter_step filterApps appStr)"

definition computeAppFilters :: "string list option \<Rightarrow> gomap option" where
  "computeAppFilters supportedApps =
     (case supportedApps of
        None \<Rightarrow> None
      | Some apps \<Rightarrow> Some (filterApps_loop apps []))"

subsection \<open>appAllowedByFilters\<close>

text \<open>
  The loop \<^verbatim>\<open>for idName, fVendor := range appFilters\<close> with its two \<^verbatim>\<open>continue\<close>s and
  its \<^verbatim>\<open>return true\<close>. \<^verbatim>\<open>int(app.ID)\<close> is the value of the 32-bit identifier (Go's
  \<^verbatim>\<open>int\<close> taken as 64 bits wide).
\<close>

fun range_appFilters :: "App \<Rightarrow> gomap \<Rightarrow> bool" where
  "range_appFilters app [] = False"
| "range_appFilters app ((idName, fVendor) # rest) =
     (if \<not> (Itoa (uint (app_ID app)) = idName \<or> app_Name app = idName)
      then range_appFilters app rest
      else if fVendor \<noteq> [] \<and>
              (length (app_Vendor app) = 0 \<or> vendor_Name (app_Vendor app ! 0) \<noteq> fVendor)
      then range_appFilters app rest
      else True)"

definition appAllowedByFilters :: "App \<Rightarrow> gomap option \<Rightarrow> bool" where
  "appAllowedByFilters app appFilters =
     (case appFilters of None \<Rightarrow> True | Some m \<Rightarrow> range_appFilters app m)"

subsection \<open>PrepareSupportedApps\<close>

text \<open>The loop \<^verbatim>\<open>for _, vendor := range app.Vendor { addApp.Vendor = vendor.ID }\<close>.\<close>

fun range_Vendor :: "Vendor list \<Rightarrow> SupportedApp \<Rightarrow> SupportedApp" where
  "range_Vendor [] addApp = addApp"
| "range_Vendor (vendor # rest) addApp =
     range_Vendor rest (addApp\<lparr>sa_Vendor := vendor_ID vendor\<rparr>)"

text \<open>\<^verbatim>\<open>new(SupportedApp)\<close> and the assignments that fill it for one application.\<close>

definition new_SupportedApp :: SupportedApp where
  "new_SupportedApp = \<lparr>sa_ID = 0, sa_AppType = [], sa_Vendor = 0\<rparr>"

definition addApp_of :: "App \<Rightarrow> SupportedApp" where
  "addApp_of app =
     range_Vendor (app_Vendor app)
       (new_SupportedApp\<lparr>sa_ID := app_ID app, sa_AppType := app_Type app\<rparr>)"

text \<open>
  The loop over \<^verbatim>\<open>d.Apps()\<close>; the dictionary is the list of its applications in the
  order \<^verbatim>\<open>Apps()\<close> returns them.
\<close>

fun range_Apps :: "App list \<Rightarrow> gomap option \<Rightarrow> SupportedApp list \<Rightarrow> SupportedApp list" where
  "range_Apps [] appFilters locallySupportedApps = locallySupportedApps"
| "range_Apps (app # rest) appFilters locallySupportedApps =
     (if app_ID app = 0 \<or> \<not> appAllowedByFilters app appFilters
      then range_Apps rest appFilters locallySupportedApps
      else range_Apps rest appFilters (locallySupportedApps @ [addApp_of app]))"

definition PrepareSupportedApps :: "App list \<Rightarrow> string list option \<Rightarrow> SupportedApp list" where
  "PrepareSupportedApps d supportedApps =
     range_Apps d (computeAppFilters supportedApps) []"

section \<open>The state machine of package sm\<close>

subsection \<open>Connections, messages and handlers\<close>

text \<open>
  Modelled from the spec: \<^verbatim>\<open>diam.CommandIndex\<close> is declared in package diam, which is
  not part of this file; the specification gives it as \<^verbatim>\<open>{ApplicationID, CommandCode,
  IsRequest}\<close>, and \<^verbatim>\<open>sm.go\<close> builds it from the fields \<^verbatim>\<open>AppID\<close>, \<^verbatim>\<open>Code\<close>, \<^verbatim>\<open>Request\<close>.
  The two command codes are constants of package diam; their values are those of the
  Diameter base protocol.
\<close>

record CommandIndex =
  idx_AppID :: "32 word"
  idx_Code :: "32 word"
  idx_Request :: bool

definition CapabilitiesExchange :: "32 word" where
  "CapabilitiesExchange = 257"

definition DeviceWatchdog :: "32 word" where
  "DeviceWatchdog = 280"

text \<open>The reserved indices, as \<^verbatim>\<open>sm.go\<close> declares them.\<close>

definition baseCERIdx :: CommandIndex where
  "baseCERIdx = \<lparr>idx_AppID = 0, idx_Code = CapabilitiesExchange, idx_Request = True\<rparr>"

definition baseCEAIdx :: CommandIndex where
  "baseCEAIdx = \<lparr>idx_AppID = 0, idx_Code = CapabilitiesExchange, idx_Request = False\<rparr>"

definition baseDWRIdx :: CommandIndex where
  "baseDWRIdx = \<lparr>idx_AppID = 0, idx_Code = DeviceWatchdog, idx_Request = True\<rparr>"

text \<open>
  Modelled from the spec: \<^verbatim>\<open>diam.Message\<close>, \<^verbatim>\<open>diam.Conn\<close> and the peer metadata of
  package smpeer are declared outside this file. A message carries its command index and
  its attribute-value pairs; only the logical fields that the specification names are
  kept. A connection is known by a number; its context store holds the peer context
  once the handshake has passed, and \<^verbatim>\<open>smpeer.FromContext\<close> looks that marker up.
\<close>

type_synonym Address = "8 word list"

datatype AVP =
  Origin_Host string
  | Origin_Realm string
  | Result_Code "32 word"
  | Vendor_Id "32 word"
  | Product_Name string
  | Application_Id SupportedApp
  | Origin_State_Id "32 word"
  | Firmware_Revision "32 word"
  | Host_IP_Address Address

record Message =
  msg_Index :: CommandIndex
  msg_AVPs :: "AVP list"

type_synonym Conn = nat

record Metadata =
  md_OriginHost :: string
  md_OriginRealm :: string

record Context =
  ctx_peer :: "Metadata option"

definition FromContext :: "Context \<Rightarrow> Metadata option" where
  "FromContext ctx = ctx_peer ctx"

text \<open>
  \<^verbatim>\<open>diam.ErrorReport\<close>: the error and the offending message, if any. The error that
  \<^verbatim>\<open>fmt.Errorf\<close> builds is kept as the format together with its argument: the command
  name for the format with \<^verbatim>\<open>%s\<close>, the command index for the one with \<^verbatim>\<open>%v\<close>.
\<close>

datatype error =
  cannot_overwrite_cmd string
  | cannot_overwrite_idx CommandIndex
  | handshake_failed string

record ErrorReport =
  er_Error :: error
  er_Message :: "Message option"

text \<open>
  What a handler can touch when a message is served: the context store of every
  connection (\<^verbatim>\<open>c.Context()\<close>), the messages written to the connections, the error
  reports pushed while serving, and the connections pushed to the handshake
  notification channel \<^verbatim>\<open>hsNotifyc\<close>, each channel as the list of what was sent on it,
  oldest first. A \<^verbatim>\<open>diam.HandlerFunc\<close> is a function of the connection and the message
  that changes this state; a \<^verbatim>\<open>diam.Handler\<close> is given by its method \<^verbatim>\<open>ServeDIAM\<close>.
\<close>

record World =
  contexts :: "Conn \<Rightarrow> Context"
  written :: "(Conn \<times> Message) list"
  reported :: "ErrorReport list"
  hsNotifyc :: "Conn list"

type_synonym Handler = "Conn \<Rightarrow> Message \<Rightarrow> World \<Rightarrow> World"

subsection \<open>handshakeOK\<close>

text \<open>
  \<^verbatim>\<open>if _, ok := smpeer.FromContext(c.Context()); ok { f(c, m) }\<close>
\<close>

definition handshakeOK :: "Handler \<Rightarrow> Handler" where
  "handshakeOK f c m w =
     (case FromContext (contexts w c) of
        Some _ \<Rightarrow> f c m w
      | None \<Rightarrow> w)"

subsection \<open>The routing table\<close>

text \<open>
  Modelled from the spec: \<^verbatim>\<open>diam.ServeMux\<close> is the message router of package diam, given
  by the specification as a map from a command identifier to a handler, with the error
  channel that \<^verbatim>\<open>Error\<close> pushes to. It has one table for command names and one for
  command indices; \<^verbatim>\<open>mux_e\<close> is the list of the reports pushed to its channel while
  handlers are registered, oldest first.
\<close>

record ServeMux =
  mux_m :: "string \<rightharpoonup> Handler"
  mux_idx :: "CommandIndex \<rightharpoonup> Handler"
  mux_e :: "ErrorReport list"

definition NewServeMux :: ServeMux where
  "NewServeMux = \<lparr>mux_m = Map.empty, mux_idx = Map.empty, mux_e = []\<rparr>"

definition mux_Handle :: "string \<Rightarrow> Handler \<Rightarrow> ServeMux \<Rightarrow> ServeMux" where
  "mux_Handle cmd handler mx = mx\<lparr>mux_m := (mux_m mx)(cmd \<mapsto> handler)\<rparr>"

definition mux_HandleIdx :: "CommandIndex \<Rightarrow> Handler \<Rightarrow> ServeMux \<Rightarrow> ServeMux" where
  "mux_HandleIdx cmd handler mx = mx\<lparr>mux_idx := (mux_idx mx)(cmd \<mapsto> handler)\<rparr>"

definition mux_Error :: "ErrorReport \<Rightarrow> ServeMux \<Rightarrow> ServeMux" where
  "mux_Error err mx = mx\<lparr>mux_e := mux_e mx @ [err]\<rparr>"

subsection \<open>Settings and StateMachine\<close>

text \<open>
  \<^verbatim>\<open>datatype.Address\<close> is a byte slice (\<^typ>\<open>Address\<close>). \<^verbatim>\<open>New\<close> reads the two address
  fields through \<^verbatim>\<open>len\<close> only, so a nil slice and an empty one are the same list here.
\<close>

record Settings =
  SupportedApps :: "string list option"
  OriginHost :: string
  OriginRealm :: string
  VendorID :: "32 word"
  ProductName :: string
  OriginStateID :: "32 word"
  FirmwareRevision :: "32 word"
  HostIPAddresses :: "Address list"
  HostIPAddress :: Address

text \<open>
  \<^verbatim>\<open>type StateMachine struct { cfg; mux; hsNotifyc; supportedApps }\<close>. The channel
  \<^verbatim>\<open>hsNotifyc\<close> is written by handlers only, while messages are served: what is sent on
  it is the field \<^const>\<open>hsNotifyc\<close> of the serving state.
\<close>

record StateMachine =
  cfg :: Settings
  mux :: ServeMux
  supportedApps :: "SupportedApp list"

subsection \<open>Registration\<close>

text \<open>\<^verbatim>\<open>func (sm *StateMachine) Error(err *diam.ErrorReport) { sm.mux.Error(err) }\<close>\<close>

definition sm_Error :: "ErrorReport \<Rightarrow> StateMachine \<Rightarrow> StateMachine" where
  "sm_Error err sm = sm\<lparr>mux := mux_Error err (mux sm)\<rparr>"

text \<open>
  \<^verbatim>\<open>HandleFunc\<close>: the switch on the command name, \<^verbatim>\<open>case "CER", "CEA", "DWR"\<close> and
  \<^verbatim>\<open>default\<close>. It takes a \<^verbatim>\<open>diam.HandlerFunc\<close> and does not call it: the default
  branch only converts it to \<^verbatim>\<open>handshakeOK\<close> and stores it.
\<close>

definition HandleFunc :: "string \<Rightarrow> Handler \<Rightarrow> StateMachine \<Rightarrow> StateMachine" where
  "HandleFunc cmd handler sm =
     (if cmd = ''CER'' \<or> cmd = ''CEA'' \<or> cmd = ''DWR''
      then sm_Error \<lparr>er_Error = cannot_overwrite_cmd cmd, er_Message = None\<rparr> sm
      else sm\<lparr>mux := mux_Handle cmd (handshakeOK handler) (mux sm)\<rparr>)"

text \<open>
  \<^verbatim>\<open>Handle\<close> and \<^verbatim>\<open>HandleIdx\<close> take a \<^verbatim>\<open>diam.Handler\<close>, an interface value that may be nil:
  \<^term>\<open>None\<close> is the nil handler, \<^term>\<open>Some h\<close> a handler whose method \<^verbatim>\<open>ServeDIAM\<close> is
  \<open>h\<close>. Taking the method value \<^verbatim>\<open>handler.ServeDIAM\<close> of the nil handler is a run-time
  panic (nil pointer dereference), so the two functions return the panic or the state
  machine.
\<close>

datatype panic = nil_pointer_dereference

text \<open>
  \<^verbatim>\<open>func (sm *StateMachine) Handle(cmd string, handler diam.Handler) {
    sm.HandleFunc(cmd, handler.ServeDIAM) }\<close>: the method value is the argument of the
  call, so it is taken first, whatever the command.
\<close>

definition Handle :: "string \<Rightarrow> Handler option \<Rightarrow> StateMachine \<Rightarrow> panic + StateMachine" where
  "Handle cmd handler sm =
     (case handler of
        None \<Rightarrow> Inl nil_pointer_dereference
      | Some ServeDIAM \<Rightarrow> Inr (HandleFunc cmd ServeDIAM sm))"

text \<open>
  \<^verbatim>\<open>HandleIdx\<close>: the switch on the command index, \<^verbatim>\<open>case baseCERIdx, baseCEAIdx,
  baseDWRIdx\<close> and \<^verbatim>\<open>default\<close>. The method value is taken in the default branch only.
\<close>

definition HandleIdx :: "CommandIndex \<Rightarrow> Handler option \<Rightarrow> StateMachine \<Rightarrow> panic + StateMachine" where
  "HandleIdx cmd handler sm =
     (if cmd = baseCERIdx \<or> cmd = baseCEAIdx \<or> cmd = baseDWRIdx
      then Inr (sm_Error \<lparr>er_Error = cannot_overwrite_idx cmd, er_Message = None\<rparr> sm)
      else (case handler of
              None \<Rightarrow> Inl nil_pointer_dereference
            | Some ServeDIAM \<Rightarrow>
                Inr (sm\<lparr>mux := mux_HandleIdx cmd (handshakeOK ServeDIAM) (mux sm)\<rparr>)))"

subsection \<open>New\<close>

text \<open>
  \<^verbatim>\<open>New\<close> reads the global dictionary \<^verbatim>\<open>dict.Default\<close> and installs the handlers that
  \<^verbatim>\<open>handleCER(sm)\<close> and \<^verbatim>\<open>handleDWR(sm)\<close> build; these three are defined outside this
  file and are parameters here. The handler constructors receive what they can read of
  the state machine they close over, its settings and its supported applications. The
  four registrations follow the source line by line: the handler for the name
  \<^verbatim>\<open>"DWR"\<close> is wrapped in \<^verbatim>\<open>handshakeOK\<close>, the one for \<^verbatim>\<open>baseDWRIdx\<close> is not.
\<close>

type_synonym HandlerMaker = "Settings \<Rightarrow> SupportedApp list \<Rightarrow> Handler"

definition promote_address :: "Settings \<Rightarrow> Settings" where
  "promote_address settings =
     (if length (HostIPAddresses settings) = 0 \<and> length (HostIPAddress settings) > 0
      then settings\<lparr>HostIPAddresses := [HostIPAddress settings]\<rparr>
      else settings)"

definition New :: "App list \<Rightarrow> HandlerMaker \<Rightarrow> HandlerMaker \<Rightarrow> Settings \<Rightarrow> StateMachine" where
  "New dict_Default handleCER handleDWR settings0 =
     (let settings = promote_address settings0;
          apps = PrepareSupportedApps dict_Default (SupportedApps settings);
          sm0 = \<lparr>cfg = settings, mux = NewServeMux, supportedApps = apps\<rparr>;
          sm1 = sm0\<lparr>mux := mux_Handle ''CER'' (handleCER settings apps) (mux sm0)\<rparr>;
          sm2 = sm1\<lparr>mux := mux_Handle ''DWR'' (handshakeOK (handleDWR settings apps)) (mux sm1)\<rparr>;
          sm3 = sm2\<lparr>mux := mux_HandleIdx baseCERIdx (handleCER settings apps) (mux sm2)\<rparr>;
          sm4 = sm3\<lparr>mux := mux_HandleIdx baseDWRIdx (handleDWR settings apps) (mux sm3)\<rparr>
      in sm4)"

subsection \<open>Sample handlers, settings and serving states\<close>

text \<open>
  A handler that records that it ran, by writing the message it was given to the
  connection; the constructor that returns it whatever the settings; settings with the
  deprecated single address only; a Re-Auth-Request and a Device-Watchdog-Request; a
  serving state in which no connection has a peer context, and the one in which
  connection \<open>c\<close> has passed the handshake.
\<close>

definition probe :: Handler where
  "probe c m w = w\<lparr>written := written w @ [(c, m)]\<rparr>"

definition probe_maker :: HandlerMaker where
  "probe_maker settings apps = probe"

definition example_settings :: Settings where
  "example_settings =
     \<lparr>SupportedApps = None, OriginHost = ''srv'', OriginRealm = ''test'', VendorID = 13,
      ProductName = ''go-diameter'', OriginStateID = 0, FirmwareRevision = 1,
      HostIPAddresses = [], HostIPAddress = [127, 0, 0, 1]\<rparr>"

definition rar_request :: Message where
  "rar_request =
     \<lparr>msg_Index = \<lparr>idx_AppID = 0, idx_Code = 258, idx_Request = True\<rparr>,
      msg_AVPs = [Origin_Host ''cli'', Origin_Realm ''test'']\<rparr>"

definition dwr_request :: Message where
  "dwr_request =
     \<lparr>msg_Index = baseDWRIdx,
      msg_AVPs = [Origin_Host ''cli'', Origin_Realm ''test'']\<rparr>"

definition fresh_world :: World where
  "fresh_world =
     \<lparr>contexts = (\<lambda>c. \<lparr>ctx_peer = None\<rparr>), written = [], reported = [], hsNotifyc = []\<rparr>"

definition verified_world :: "Conn \<Rightarrow> World" where
  "verified_world c =
     fresh_world\<lparr>contexts := (contexts fresh_world)
       (c := \<lparr>ctx_peer = Some \<lparr>md_OriginHost = ''cli'', md_OriginRealm = ''test''\<rparr>\<rparr>)\<rparr>"

subsection \<open>The Capabilities-Exchange-Request handler\<close>

text \<open>
  Modelled from the spec: \<^verbatim>\<open>handleCER\<close> is defined in another file of package sm, which
  is not part of this development; \<^verbatim>\<open>New\<close> only installs it. The specification
  describes it so: it validates that the request carries the mandatory peer identity
  (origin host and origin realm); on success it builds an answer with the success result
  code, the local origin host and realm, the vendor identifier, the product name, the
  locally supported applications, and the origin state identifier, the firmware revision
  and the host addresses when configured; it then marks the connection verified, which
  does nothing when the connection is verified already, and emits the connection on the
  handshake notification channel, once per connection. A request without the mandatory
  identity is answered with a failure result code and reported. The mark-and-notify step
  is atomic by the specification, so the handler is a list of two steps, and two
  requests that race are an interleaving of their steps.
\<close>

definition Success :: "32 word" where
  "Success = 2001"

definition MissingAVP :: "32 word" where
  "MissingAVP = 5005"

fun find_Origin_Host :: "AVP list \<Rightarrow> string option" where
  "find_Origin_Host [] = None"
| "find_Origin_Host (Origin_Host h # avps) = Some h"
| "find_Origin_Host (_ # avps) = find_Origin_Host avps"

fun find_Origin_Realm :: "AVP list \<Rightarrow> string option" where
  "find_Origin_Realm [] = None"
| "find_Origin_Realm (Origin_Realm r # avps) = Some r"
| "find_Origin_Realm (_ # avps) = find_Origin_Realm avps"

fun find_Result_Code :: "AVP list \<Rightarrow> 32 word option" where
  "find_Result_Code [] = None"
| "find_Result_Code (Result_Code rc # avps) = Some rc"
| "find_Result_Code (_ # avps) = find_Result_Code avps"

definition peer_identity :: "Message \<Rightarrow> Metadata option" where
  "peer_identity m =
     (case (find_Origin_Host (msg_AVPs m), find_Origin_Realm (msg_AVPs m)) of
        (Some h, Some r) \<Rightarrow> Some \<lparr>md_OriginHost = h, md_OriginRealm = r\<rparr>
      | _ \<Rightarrow> None)"

definition answer_index :: "Message \<Rightarrow> CommandIndex" where
  "answer_index m = (msg_Index m)\<lparr>idx_Request := False\<rparr>"

definition successCEA :: "Settings \<Rightarrow> SupportedApp list \<Rightarrow> Message \<Rightarrow> Message" where
  "successCEA settings apps m =
     \<lparr>msg_Index = answer_index m,
      msg_AVPs =
        [Result_Code Success, Origin_Host (OriginHost settings),
         Origin_Realm (OriginRealm settings), Vendor_Id (VendorID settings),
         Product_Name (ProductName settings)]
        @ map Application_Id apps
        @ (if OriginStateID settings \<noteq> 0 then [Origin_State_Id (OriginStateID settings)] else [])
        @ (if FirmwareRevision settings \<noteq> 0
           then [Firmware_Revision (FirmwareRevision settings)] else [])
        @ map Host_IP_Address (HostIPAddresses settings)\<rparr>"

definition errorCEA :: "Settings \<Rightarrow> Message \<Rightarrow> Message" where
  "errorCEA settings m =
     \<lparr>msg_Index = answer_index m,
      msg_AVPs =
        [Result_Code MissingAVP, Origin_Host (OriginHost settings),
         Origin_Realm (OriginRealm settings)]\<rparr>"

text \<open>The first step: validate the request and write the answer.\<close>

definition cer_answer :: "Settings \<Rightarrow> SupportedApp list \<Rightarrow> Handler" where
  "cer_answer settings apps c m w =
     (case peer_identity m of
        Some md \<Rightarrow> w\<lparr>written := written w @ [(c, successCEA settings apps m)]\<rparr>
      | None \<Rightarrow>
          w\<lparr>written := written w @ [(c, errorCEA settings m)],
            reported := reported w @
              [\<lparr>er_Error = handshake_failed ''missing peer identity'', er_Message = Some m\<rparr>]\<rparr>)"

text \<open>
  The second step, atomic: mark the connection verified and notify, unless the
  connection is verified already.
\<close>

definition cer_mark_and_notify :: Handler where
  "cer_mark_and_notify c m w =
     (case peer_identity m of
        Some md \<Rightarrow>
          (case FromContext (contexts w c) of
             Some _ \<Rightarrow> w
           | None \<Rightarrow>
               w\<lparr>contexts := (contexts w)(c := \<lparr>ctx_peer = Some md\<rparr>),
                 hsNotifyc := hsNotifyc w @ [c]\<rparr>)
      | None \<Rightarrow> w)"

definition cer_steps :: "Settings \<Rightarrow> SupportedApp list \<Rightarrow> Conn \<Rightarrow> Message \<Rightarrow> (World \<Rightarrow> World) list" where
  "cer_steps settings apps c m = [cer_answer settings apps c m, cer_mark_and_notify c m]"

text \<open>Running a schedule of steps, first step first.\<close>

fun run :: "(World \<Rightarrow> World) list \<Rightarrow> World \<Rightarrow> World" where
  "run [] w = w"
| "run (step # steps) w = run steps (step w)"

definition handleCER :: HandlerMaker where
  "handleCER settings apps c m w = run (cer_steps settings apps c m) w"

text \<open>A well-formed Capabilities-Exchange-Request.\<close>

definition cer_request :: Message where
  "cer_request =
     \<lparr>msg_Index = baseCERIdx,
      msg_AVPs = [Origin_Host ''cli'', Origin_Realm ''test'', Vendor_Id 13,
                  Product_Name ''go-diameter'']\<rparr>"

section \<open>Reference definitions for the filter semantics\<close>

text \<open>
  The pair that one filter string stores in the map: both branches of the loop body of
  \<^verbatim>\<open>computeAppFilters\<close> assign \<^verbatim>\<open>filterApps[key] = vendor\<close>, and \<open>filter_entry\<close> names
  that key and that vendor (\<open>filter_step_entry\<close> below proves it).
\<close>

definition filter_entry :: "string \<Rightarrow> string \<times> string" where
  "filter_entry appStr =
     (let parts = Split appStr (CHR ''.'') in
      if length parts > 1 then (parts ! 1, parts ! 0) else (parts ! 0, []))"

text \<open>
  The inclusion rule in the words of the specification: a pair (match key, vendor
  constraint) admits an application when the decimal string of its identifier or its
  name is the match key, and the vendor constraint is empty or the first vendor of the
  application has that name. An application is included when its identifier is not 0
  and some pair of the map admits it.
\<close>

definition spec_pair_matches :: "App \<Rightarrow> string \<times> string \<Rightarrow> bool" where
  "spec_pair_matches app kv =
     ((Itoa (uint (app_ID app)) = fst kv \<or> app_Name app = fst kv) \<and>
      (snd kv = [] \<or> (app_Vendor app \<noteq> [] \<and> vendor_Name (hd (app_Vendor app)) = snd kv)))"

definition spec_included :: "gomap \<Rightarrow> App \<Rightarrow> bool" where
  "spec_included m app = (app_ID app \<noteq> 0 \<and> (\<exists>kv \<in> set m. spec_pair_matches app kv))"

text \<open>
  The vendor of a supported application in the words of the specification (the first
  vendor of the list, 0 when there is none), the list the specification gives for absent
  filters, and the vendor the loop of \<^verbatim>\<open>PrepareSupportedApps\<close> leaves in the field (the
  last one).
\<close>

definition spec_first_vendor :: "App \<Rightarrow> 32 word" where
  "spec_first_vendor app = (case app_Vendor app of [] \<Rightarrow> 0 | v # _ \<Rightarrow> vendor_ID v)"

definition spec_nil_filters :: "App list \<Rightarrow> SupportedApp list" where
  "spec_nil_filters d =
     map (\<lambda>app. \<lparr>sa_ID = app_ID app, sa_AppType = app_Type app,
                sa_Vendor = spec_first_vendor app\<rparr>)
       (filter (\<lambda>app. app_ID app \<noteq> 0) d)"

definition last_vendor :: "App \<Rightarrow> 32 word" where
  "last_vendor app = (if app_Vendor app = [] then 0 else vendor_ID (last (app_Vendor app)))"

text \<open>
  A small dictionary in the shape of the one the tests of package sm read: the base
  application 0, two applications without vendor and one 3GPP application.
\<close>

definition example_dict :: "App list" where
  "example_dict =
     [\<lparr>app_ID = 0, app_Type = ''auth'', app_Name = ''Base'', app_Vendor = []\<rparr>,
      \<lparr>app_ID = 4, app_Type = ''auth'', app_Name = ''Charging Control'', app_Vendor = []\<rparr>,
      \<lparr>app_ID = 1, app_Type = ''auth'', app_Name = ''NASREQ'', app_Vendor = []\<rparr>,
      \<lparr>app_ID = 16777251, app_Type = ''auth'', app_Name = ''TGPP S6A'',
        app_Vendor = [\<lparr>vendor_ID = 10415, vendor_Name = ''TGPP''\<rparr>]\<rparr>]"

text \<open>An application that lists two vendors.\<close>

definition two_vendor_dict :: "App list" where
  "two_vendor_dict =
     [\<lparr>app_ID = 7, app_Type = ''auth'', app_Name = ''X'',
       app_Vendor = [\<lparr>vendor_ID = 1, vendor_Name = ''V1''\<rparr>,
                     \<lparr>vendor_ID = 2, vendor_Name = ''V2''\<rparr>]\<rparr>]"

section \<open>Properties of the application registry builder\<close>

subsection \<open>Auxiliary facts\<close>

lemma Split_from_not_Nil: "Split_from s c piece \<noteq> []"
  by (induction s arbitrary: piece) auto

lemma Split_not_Nil: "Split s c \<noteq> []"
  by (simp add: Split_def Split_from_not_Nil)

lemma Split_from_pieces_no_sep:
  "p \<in> set (Split_from s c piece) \<Longrightarrow> c \<notin> set piece \<Longrightarrow> c \<notin> set p"
proof (induction s arbitrary: piece)
  case Nil
  then show ?case by simp
next
  case (Cons a s)
  show ?case
  proof (cases "a = c")
    case True
    with Cons.prems have "p = piece \<or> p \<in> set (Split_from s c [])" by simp
    with Cons.IH [of "[]"] Cons.prems(2) show ?thesis by auto
  next
    case False
    with Cons.prems have "p \<in> set (Split_from s c (piece @ [a]))" by simp
    with Cons.IH [of "piece @ [a]"] Cons.prems(2) False show ?thesis by auto
  qed
qed

lemma Split_pieces_no_sep: "p \<in> set (Split s c) \<Longrightarrow> c \<notin> set p"
  unfolding Split_def by (erule Split_from_pieces_no_sep) simp

lemma Split_from_append_sep:
  "c \<notin> set a \<Longrightarrow> Split_from (a @ c # r) c piece = (piece @ a) # Split_from r c []"
  by (induction a arbitrary: piece) auto

lemma Split_append_sep: "c \<notin> set a \<Longrightarrow> Split (a @ c # r) c = a # Split r c"
  by (simp add: Split_def Split_from_append_sep)

lemma Split_from_no_sep: "c \<notin> set a \<Longrightarrow> Split_from a c piece = [piece @ a]"
  by (induction a arbitrary: piece) auto

lemma Split_no_sep: "c \<notin> set a \<Longrightarrow> Split a c = [a]"
  by (simp add: Split_def Split_from_no_sep)

lemma filter_step_entry:
  "filter_step m s = map_assign m (fst (filter_entry s)) (snd (filter_entry s))"
  by (simp add: filter_step_def filter_entry_def Let_def)

lemma map_of_map_assign: "map_of (map_assign m k v) = (map_of m)(k \<mapsto> v)"
  by (induction m) (auto simp: fun_eq_iff)

lemma fst_set_map_assign: "fst ` set (map_assign m k v) = insert k (fst ` set m)"
  by (induction m k v rule: map_assign.induct) (simp_all add: insert_commute)

lemma distinct_map_assign:
  "distinct (map fst m) \<Longrightarrow> distinct (map fst (map_assign m k v))"
proof (induction m)
  case Nil
  then show ?case by simp
next
  case (Cons p m)
  obtain k' v' where p: "p = (k', v')" by (cases p)
  show ?case
  proof (cases "k' = k")
    case True
    with Cons p show ?thesis by simp
  next
    case False
    with Cons p show ?thesis
      using fst_set_map_assign [of m k v] by auto
  qed
qed

lemma distinct_filterApps_loop:
  "distinct (map fst m) \<Longrightarrow> distinct (map fst (filterApps_loop fs m))"
  by (induction fs arbitrary: m) (simp_all add: filter_step_entry distinct_map_assign)

lemma filterApps_loop_append:
  "filterApps_loop (xs @ ys) m = filterApps_loop ys (filterApps_loop xs m)"
  by (induction xs arbitrary: m) simp_all

lemma map_of_filterApps_loop_other:
  "\<forall>t \<in> set fs. fst (filter_entry t) \<noteq> k \<Longrightarrow>
     map_of (filterApps_loop fs m) k = map_of m k"
  by (induction fs arbitrary: m) (auto simp: filter_step_entry map_of_map_assign)

lemma range_appFilters_iff:
  "range_appFilters app m = (\<exists>kv \<in> set m. spec_pair_matches app kv)"
  by (induction app m rule: range_appFilters.induct)
     (auto simp: spec_pair_matches_def hd_conv_nth)

lemma range_appFilters_order:
  "set m = set m' \<Longrightarrow> range_appFilters app m = range_appFilters app m'"
  by (simp add: range_appFilters_iff)

lemma range_Apps_eq:
  "range_Apps d f acc =
     acc @ map addApp_of (filter (\<lambda>a. app_ID a \<noteq> 0 \<and> appAllowedByFilters a f) d)"
  by (induction d arbitrary: acc) auto

lemma vendors_distinct_pairs:
  "distinct (map fst m) \<Longrightarrow> map_of m k = Some v \<Longrightarrow>
     map snd (filter (\<lambda>kv. fst kv = k) m) = [v]"
proof (induction m)
  case Nil
  then show ?case by simp
next
  case (Cons p m)
  obtain k' v' where p: "p = (k', v')" by (cases p)
  show ?case
  proof (cases "k' = k")
    case True
    with Cons p have "filter (\<lambda>kv. fst kv = k) m = []"
      by (auto simp: filter_empty_conv)
    with Cons p True show ?thesis by simp
  next
    case False
    with Cons p show ?thesis by simp
  qed
qed


lemma PrepareSupportedApps_Some:
  "PrepareSupportedApps d (Some fs) =
     map addApp_of (filter (spec_included (filterApps_loop fs [])) d)"
proof -
  have "(\<lambda>a. app_ID a \<noteq> 0 \<and> range_appFilters a m) = spec_included m" for m
    by (simp add: fun_eq_iff spec_included_def range_appFilters_iff)
  then show ?thesis
    by (simp add: PrepareSupportedApps_def computeAppFilters_def range_Apps_eq
        appAllowedByFilters_def)
qed

subsection \<open>Filtered registry\<close>

text \<open>
  The compiled map, read as a map: every key has the vendor of the last filter string that
  stores it.
\<close>

lemma map_of_filterApps_loop:
  "map_of (filterApps_loop fs m) = map_of (rev (map filter_entry fs) @ m)"
proof (induction fs arbitrary: m)
  case Nil
  then show ?case by simp
next
  case (Cons f fs)
  have "map_of (filterApps_loop (f # fs) m) =
      map_of (rev (map filter_entry fs) @ filter_step m f)"
    by (simp add: Cons.IH)
  also have "\<dots> = map_of (filter_step m f) ++ map_of (rev (map filter_entry fs))"
    by (simp only: map_of_append)
  also have "map_of (filter_step m f) = map_of (filter_entry f # m)"
    by (simp add: filter_step_entry map_of_map_assign)
  also have "map_of (filter_entry f # m) ++ map_of (rev (map filter_entry fs)) =
      map_of (rev (map filter_entry (f # fs)) @ m)"
    by (simp only: map_of_append [symmetric] rev.simps list.map append_assoc append.simps)
  finally show ?case .
qed

text \<open>
  Claim C4. For every dictionary and every filter list that is provided (not nil),
  \<^verbatim>\<open>computeAppFilters\<close> returns a map (not nil) that holds every key once, with the vendor
  of the last filter string that stores the key, and the output of
  \<^verbatim>\<open>PrepareSupportedApps\<close> is the list of the supported applications built from exactly
  those dictionary applications that the inclusion rule admits for that map (identifier
  not 0, and some pair of the map whose key is the decimal identifier or the name and
  whose vendor is empty or the name of the first vendor), in the order of the
  dictionary.
\<close>

theorem PrepareSupportedApps_filtered:
  "\<exists>m. computeAppFilters (Some filters) = Some m \<and>
        distinct (map fst m) \<and>
        map_of m = map_of (rev (map filter_entry filters)) \<and>
        PrepareSupportedApps d (Some filters) = map addApp_of (filter (spec_included m) d) \<and>
        map sa_ID (PrepareSupportedApps d (Some filters)) =
          map app_ID (filter (spec_included m) d)"
proof -
  let ?m = "filterApps_loop filters []"
  have c: "computeAppFilters (Some filters) = Some ?m"
    by (simp add: computeAppFilters_def)
  have id: "sa_ID (addApp_of a) = app_ID a" for a
  proof -
    have "sa_ID (range_Vendor vs s) = sa_ID s" for vs s
      by (induction vs arbitrary: s) simp_all
    then show ?thesis by (simp add: addApp_of_def)
  qed
  have dist: "distinct (map fst ?m)"
    by (rule distinct_filterApps_loop) simp
  have mo: "map_of ?m = map_of (rev (map filter_entry filters))"
    by (simp add: map_of_filterApps_loop)
  have out: "PrepareSupportedApps d (Some filters) = map addApp_of (filter (spec_included ?m) d)"
    by (rule PrepareSupportedApps_Some)
  then have ids: "map sa_ID (PrepareSupportedApps d (Some filters)) =
      map app_ID (filter (spec_included ?m) d)"
    by (simp add: id comp_def)
  from c dist mo out ids show ?thesis by blast
qed

text \<open>
  On the example dictionary, with a filter that asks application 4 for a vendor it does
  not have: application 4 is left out, which the absent filter list would keep.
\<close>

theorem PrepareSupportedApps_filtered_witness:
  "computeAppFilters (Some [''1'', ''NoVendor.4'', ''TGPP.TGPP S6A'']) =
     Some [(''1'', []), (''4'', ''NoVendor''), (''TGPP S6A'', ''TGPP'')] \<and>
   PrepareSupportedApps example_dict (Some [''1'', ''NoVendor.4'', ''TGPP.TGPP S6A'']) =
     map addApp_of
       (filter (spec_included [(''1'', []), (''4'', ''NoVendor''), (''TGPP S6A'', ''TGPP'')])
          example_dict) \<and>
   PrepareSupportedApps example_dict (Some [''1'', ''NoVendor.4'', ''TGPP.TGPP S6A'']) =
     [\<lparr>sa_ID = 1, sa_AppType = ''auth'', sa_Vendor = 0\<rparr>,
      \<lparr>sa_ID = 16777251, sa_AppType = ''auth'', sa_Vendor = 10415\<rparr>] \<and>
   PrepareSupportedApps example_dict None =
     [\<lparr>sa_ID = 4, sa_AppType = ''auth'', sa_Vendor = 0\<rparr>,
      \<lparr>sa_ID = 1, sa_AppType = ''auth'', sa_Vendor = 0\<rparr>,
      \<lparr>sa_ID = 16777251, sa_AppType = ''auth'', sa_Vendor = 10415\<rparr>]"
proof -
  have c: "computeAppFilters (Some [''1'', ''NoVendor.4'', ''TGPP.TGPP S6A'']) =
      Some [(''1'', []), (''4'', ''NoVendor''), (''TGPP S6A'', ''TGPP'')]"
    by code_simp
  have e: "PrepareSupportedApps example_dict (Some [''1'', ''NoVendor.4'', ''TGPP.TGPP S6A'']) =
     [\<lparr>sa_ID = 1, sa_AppType = ''auth'', sa_Vendor = 0\<rparr>,
      \<lparr>sa_ID = 16777251, sa_AppType = ''auth'', sa_Vendor = 10415\<rparr>]"
    by code_simp
  have n: "PrepareSupportedApps example_dict None =
     [\<lparr>sa_ID = 4, sa_AppType = ''auth'', sa_Vendor = 0\<rparr>,
      \<lparr>sa_ID = 1, sa_AppType = ''auth'', sa_Vendor = 0\<rparr>,
      \<lparr>sa_ID = 16777251, sa_AppType = ''auth'', sa_Vendor = 10415\<rparr>]"
    by code_simp
  from PrepareSupportedApps_filtered [of "[''1'', ''NoVendor.4'', ''TGPP.TGPP S6A'']" example_dict]
  obtain m where
    m: "computeAppFilters (Some [''1'', ''NoVendor.4'', ''TGPP.TGPP S6A'']) = Some m" and
    o: "PrepareSupportedApps example_dict (Some [''1'', ''NoVendor.4'', ''TGPP.TGPP S6A'']) =
          map addApp_of (filter (spec_included m) example_dict)"
    by blast
  from m c have "m = [(''1'', []), (''4'', ''NoVendor''), (''TGPP S6A'', ''TGPP'')]"
    by simp
  with o c e n show ?thesis by simp
qed

subsection \<open>Absent and empty filter lists\<close>

lemma range_Vendor_last:
  "range_Vendor vs s =
     (if vs = [] then s else s\<lparr>sa_Vendor := vendor_ID (last vs)\<rparr>)"
  by (induction vs arbitrary: s) simp_all

lemma addApp_of_eq:
  "addApp_of app =
     \<lparr>sa_ID = app_ID app, sa_AppType = app_Type app, sa_Vendor = last_vendor app\<rparr>"
  by (simp add: addApp_of_def range_Vendor_last new_SupportedApp_def last_vendor_def)

lemma PrepareSupportedApps_None:
  "PrepareSupportedApps d None = map addApp_of (filter (\<lambda>app. app_ID app \<noteq> 0) d)"
  by (simp add: PrepareSupportedApps_def computeAppFilters_def range_Apps_eq
      appAllowedByFilters_def)

text \<open>
  Claim C5, as stated, fails on the code: for an application that lists two vendors the
  loop over \<^verbatim>\<open>app.Vendor\<close> overwrites the field with every vendor in turn, so the
  supported application carries the identifier of the last vendor, 2, where the
  specification's list has the identifier of the first, 1.
\<close>

theorem PrepareSupportedApps_nil_first_vendor_counterexample:
  "PrepareSupportedApps two_vendor_dict None =
     [\<lparr>sa_ID = 7, sa_AppType = ''auth'', sa_Vendor = 2\<rparr>] \<and>
   spec_nil_filters two_vendor_dict =
     [\<lparr>sa_ID = 7, sa_AppType = ''auth'', sa_Vendor = 1\<rparr>] \<and>
   PrepareSupportedApps two_vendor_dict None \<noteq> spec_nil_filters two_vendor_dict"
  by (simp add: PrepareSupportedApps_def computeAppFilters_def appAllowedByFilters_def
      addApp_of_def new_SupportedApp_def spec_nil_filters_def spec_first_vendor_def
      two_vendor_dict_def)

text \<open>
  Claim C5, amended. When the filter list is absent (nil), \<^verbatim>\<open>PrepareSupportedApps\<close>
  returns every dictionary application whose identifier is not 0, in the order of the
  dictionary, and the vendor field of each is the identifier of the last vendor of the
  application's vendor list, or 0 when the application has no vendor.
\<close>

theorem PrepareSupportedApps_nil_last_vendor:
  "PrepareSupportedApps d None =
     map (\<lambda>app. \<lparr>sa_ID = app_ID app, sa_AppType = app_Type app,
                sa_Vendor = last_vendor app\<rparr>)
       (filter (\<lambda>app. app_ID app \<noteq> 0) d)"
  by (simp add: PrepareSupportedApps_None addApp_of_eq)

theorem PrepareSupportedApps_nil_last_vendor_witness:
  "PrepareSupportedApps example_dict None =
     [\<lparr>sa_ID = 4, sa_AppType = ''auth'', sa_Vendor = 0\<rparr>,
      \<lparr>sa_ID = 1, sa_AppType = ''auth'', sa_Vendor = 0\<rparr>,
      \<lparr>sa_ID = 16777251, sa_AppType = ''auth'', sa_Vendor = 10415\<rparr>] \<and>
   PrepareSupportedApps two_vendor_dict None =
     [\<lparr>sa_ID = 7, sa_AppType = ''auth'', sa_Vendor = 2\<rparr>]"
  using PrepareSupportedApps_nil_last_vendor [of example_dict]
    PrepareSupportedApps_nil_last_vendor [of two_vendor_dict]
  by (simp add: example_dict_def two_vendor_dict_def last_vendor_def)

text \<open>
  With the empty map no application passes \<^verbatim>\<open>appAllowedByFilters\<close>.
\<close>

lemma range_Apps_empty_map: "range_Apps d (Some []) acc = acc"
  by (induction d arbitrary: acc) (simp_all add: appAllowedByFilters_def)

lemma sa_ID_addApp_of: "sa_ID (addApp_of app) = app_ID app"
  by (simp add: addApp_of_eq)

text \<open>
  Claim C6. For every dictionary, an empty filter list that is not nil gives no supported
  application at all, whereas the nil filter list gives one supported application for
  every dictionary application whose identifier is not 0.
\<close>

theorem PrepareSupportedApps_empty_filters:
  "PrepareSupportedApps d (Some []) = [] \<and>
   map sa_ID (PrepareSupportedApps d None) = map app_ID (filter (\<lambda>app. app_ID app \<noteq> 0) d)"
proof
  show "PrepareSupportedApps d (Some []) = []"
    by (simp add: PrepareSupportedApps_def computeAppFilters_def range_Apps_empty_map)
  show "map sa_ID (PrepareSupportedApps d None) =
      map app_ID (filter (\<lambda>app. app_ID app \<noteq> 0) d)"
    by (simp add: PrepareSupportedApps_None sa_ID_addApp_of comp_def)
qed

theorem PrepareSupportedApps_empty_filters_witness:
  "PrepareSupportedApps example_dict (Some []) = [] \<and>
   map sa_ID (PrepareSupportedApps example_dict None) = [4, 1, 16777251]"
  using PrepareSupportedApps_empty_filters [of example_dict]
  by (simp add: example_dict_def)

subsection \<open>Compiling the filter strings\<close>

text \<open>
  Claim C8. When a filter string is the last one of the list with its match key (no
  later string has the same key), the compiled map gives that key the vendor requirement
  of this string, whatever earlier strings with the same key required; the map holds
  exactly one vendor requirement for the key, and holds every key once.
\<close>

theorem computeAppFilters_last_write_wins:
  assumes "computeAppFilters (Some (pre @ appStr # post)) = Some m"
      and "\<forall>t \<in> set post. fst (filter_entry t) \<noteq> fst (filter_entry appStr)"
  shows "map_of m (fst (filter_entry appStr)) = Some (snd (filter_entry appStr)) \<and>
         map snd (filter (\<lambda>kv. fst kv = fst (filter_entry appStr)) m) =
           [snd (filter_entry appStr)] \<and>
         distinct (map fst m)"
proof -
  let ?k = "fst (filter_entry appStr)"
  from assms(1) have m: "m = filterApps_loop (pre @ appStr # post) []"
    by (simp add: computeAppFilters_def)
  have d: "distinct (map fst m)"
    unfolding m by (rule distinct_filterApps_loop) simp
  have "map_of m ?k = map_of (filter_step (filterApps_loop pre []) appStr) ?k"
    unfolding m filterApps_loop_append
    using map_of_filterApps_loop_other [OF assms(2)] by simp
  then have l: "map_of m ?k = Some (snd (filter_entry appStr))"
    by (simp add: filter_step_entry map_of_map_assign)
  from d l vendors_distinct_pairs [OF d l] show ?thesis by simp
qed

theorem computeAppFilters_last_write_wins_witness:
  "computeAppFilters (Some [''TGPP.4'', ''Other.4'', ''1'']) =
     Some [(''4'', ''Other''), (''1'', [])] \<and>
   map_of [(''4'', ''Other''), (''1'', [])] ''4'' = Some ''Other'' \<and>
   map snd (filter (\<lambda>kv. fst kv = ''4'') [(''4'', ''Other''), (''1'', [])]) = [''Other'']"
proof -
  have m: "computeAppFilters (Some ([''TGPP.4''] @ ''Other.4'' # [''1''])) =
      Some [(''4'', ''Other''), (''1'', [])]"
    by code_simp
  have e: "filter_entry ''Other.4'' = (''4'', ''Other'')" "filter_entry ''1'' = (''1'', [])"
    by code_simp+
  have h: "\<forall>t \<in> set [''1'']. fst (filter_entry t) \<noteq> fst (filter_entry ''Other.4'')"
    by (simp add: e)
  from computeAppFilters_last_write_wins [OF m h] m show ?thesis
    by (simp add: e)
qed

lemma filter_entry_parts:
  assumes l: "1 < length (Split appStr (CHR ''.''))"
  shows "filter_entry (Split appStr (CHR ''.'') ! 0 @ CHR ''.'' # Split appStr (CHR ''.'') ! 1) =
       filter_entry appStr"
proof -
  let ?ps = "Split appStr (CHR ''.'')"
  have "0 < length ?ps" using Split_not_Nil [of appStr "CHR ''.''"] by simp
  then have "?ps ! 0 \<in> set ?ps" by (rule nth_mem)
  moreover from l have "?ps ! 1 \<in> set ?ps" by (rule nth_mem)
  ultimately have n: "CHR ''.'' \<notin> set (?ps ! 0)" "CHR ''.'' \<notin> set (?ps ! 1)"
    by (auto dest: Split_pieces_no_sep)
  have "Split (?ps ! 0 @ CHR ''.'' # ?ps ! 1) (CHR ''.'') = [?ps ! 0, ?ps ! 1]"
    by (simp only: Split_append_sep [OF n(1)] Split_no_sep [OF n(2)])
  with l show ?thesis
    by (simp add: filter_entry_def Let_def)
qed

lemma filterApps_loop_cong:
  "map filter_entry fs = map filter_entry gs \<Longrightarrow> filterApps_loop fs m = filterApps_loop gs m"
proof (induction fs arbitrary: gs m)
  case Nil
  then show ?case by simp
next
  case (Cons f fs)
  then obtain g gs' where g: "gs = g # gs'" by (cases gs) auto
  with Cons.prems have "filter_entry f = filter_entry g" "map filter_entry fs = map filter_entry gs'"
    by simp_all
  with Cons.IH [of gs'] g show ?case
    by (simp add: filter_step_entry)
qed

text \<open>
  Claim C10. A filter string with three or more parts stores its second part as the key
  and its first part as the vendor, and the compiled map of any filter list that
  contains it is the map of the list in which the string is cut down to its first two
  parts: the parts beyond the second change nothing.
\<close>

theorem computeAppFilters_first_two_parts:
  assumes "3 \<le> length (Split appStr (CHR ''.''))"
  shows "filter_step filterApps appStr =
           map_assign filterApps (Split appStr (CHR ''.'') ! 1) (Split appStr (CHR ''.'') ! 0) \<and>
         computeAppFilters (Some (pre @ appStr # post)) =
           computeAppFilters
             (Some (pre @ (Split appStr (CHR ''.'') ! 0 @ CHR ''.'' # Split appStr (CHR ''.'') ! 1) # post))"
proof -
  from assms have l: "1 < length (Split appStr (CHR ''.''))" by simp
  then have "filter_step filterApps appStr =
      map_assign filterApps (Split appStr (CHR ''.'') ! 1) (Split appStr (CHR ''.'') ! 0)"
    by (simp add: filter_step_def Let_def)
  moreover have "filterApps_loop (pre @ appStr # post) [] =
      filterApps_loop
        (pre @ (Split appStr (CHR ''.'') ! 0 @ CHR ''.'' # Split appStr (CHR ''.'') ! 1) # post) []"
    by (rule filterApps_loop_cong) (simp only: map_append list.map filter_entry_parts [OF l])
  ultimately show ?thesis
    by (simp add: computeAppFilters_def)
qed


theorem computeAppFilters_first_two_parts_witness:
  "computeAppFilters (Some [''1'', ''TGPP.16777251.extra.more'']) =
     computeAppFilters (Some [''1'', ''TGPP.16777251'']) \<and>
   computeAppFilters (Some [''1'', ''TGPP.16777251.extra.more'']) =
     Some [(''1'', []), (''16777251'', ''TGPP'')]"
proof -
  have s: "Split ''TGPP.16777251.extra.more'' (CHR ''.'') =
      [''TGPP'', ''16777251'', ''extra'', ''more'']"
    by code_simp
  then have h: "3 \<le> length (Split ''TGPP.16777251.extra.more'' (CHR ''.''))"
    by simp
  have e: "computeAppFilters (Some [''1'', ''TGPP.16777251.extra.more'']) =
      Some [(''1'', []), (''16777251'', ''TGPP'')]"
    by code_simp
  from computeAppFilters_first_two_parts [OF h, of "[]" "[''1'']" "[]"] e show ?thesis
    by (simp add: s)
qed

section \<open>Properties of the state machine\<close>

subsection \<open>The handshake gate\<close>

lemma handshakeOK_absent:
  "FromContext (contexts w c) = None \<Longrightarrow> handshakeOK f c m w = w"
  by (simp add: handshakeOK_def)

lemma handshakeOK_present:
  "FromContext (contexts w c) = Some md \<Longrightarrow> handshakeOK f c m w = f c m w"
  by (simp add: handshakeOK_def)

text \<open>
  Claim C1. A handler registered through \<^verbatim>\<open>Handle\<close>, \<^verbatim>\<open>HandleFunc\<close> or \<^verbatim>\<open>HandleIdx\<close> under
  a command that is not reserved is stored in the routing table wrapped in
  \<^verbatim>\<open>handshakeOK\<close> (and the registration does not panic). Served on a connection whose
  context store holds no peer context, the stored handler leaves the serving state as it
  was: the registered handler does not run, nothing is written to the connection and
  nothing is reported. When the peer context is present it does what the registered
  handler does on the same connection and message.
\<close>

theorem registered_handlers_gated:
  "(cmd \<notin> {''CER'', ''CEA'', ''DWR''} \<longrightarrow>
      (\<exists>sm'. Handle cmd (Some handler) sm = Inr sm' \<and>
             mux_m (mux sm') cmd = Some (handshakeOK handler)) \<and>
      mux_m (mux (HandleFunc cmd handler sm)) cmd = Some (handshakeOK handler)) \<and>
   (idx \<notin> {baseCERIdx, baseCEAIdx, baseDWRIdx} \<longrightarrow>
      (\<exists>sm'. HandleIdx idx (Some handler) sm = Inr sm' \<and>
             mux_idx (mux sm') idx = Some (handshakeOK handler))) \<and>
   (FromContext (contexts w c) = None \<longrightarrow> handshakeOK handler c m w = w) \<and>
   (FromContext (contexts w c) \<noteq> None \<longrightarrow> handshakeOK handler c m w = handler c m w)"
  by (auto simp: Handle_def HandleFunc_def HandleIdx_def mux_Handle_def mux_HandleIdx_def
      handshakeOK_def)

theorem registered_handlers_gated_witness:
  "map_sum id (\<lambda>sm'. mux_m (mux sm') ''RAR'')
     (Handle ''RAR'' (Some probe) (New example_dict probe_maker probe_maker example_settings))
     = Inr (Some (handshakeOK probe)) \<and>
   map_sum id (\<lambda>sm'. mux_idx (mux sm') (msg_Index rar_request))
     (HandleIdx (msg_Index rar_request) (Some probe)
        (New example_dict probe_maker probe_maker example_settings))
     = Inr (Some (handshakeOK probe)) \<and>
   handshakeOK probe 1 rar_request fresh_world = fresh_world \<and>
   written (handshakeOK probe 1 rar_request (verified_world 1)) = [(1, rar_request)]"
proof -
  have n: "''RAR'' \<notin> {''CER'', ''CEA'', ''DWR''}" by simp
  have i: "msg_Index rar_request \<notin> {baseCERIdx, baseCEAIdx, baseDWRIdx}"
    by (simp add: rar_request_def baseCERIdx_def baseCEAIdx_def baseDWRIdx_def
        CapabilitiesExchange_def DeviceWatchdog_def)
  have a: "FromContext (contexts fresh_world 1) = None"
    by (simp add: FromContext_def fresh_world_def)
  have p: "FromContext (contexts (verified_world 1) 1) \<noteq> None"
    by (simp add: FromContext_def verified_world_def)
  have r: "written (probe 1 rar_request (verified_world 1)) = [(1, rar_request)]"
    by (simp add: probe_def verified_world_def fresh_world_def)
  from registered_handlers_gated [of "''RAR''" probe
      "New example_dict probe_maker probe_maker example_settings" "msg_Index rar_request"
      fresh_world 1 rar_request]
    registered_handlers_gated [of "''RAR''" probe
      "New example_dict probe_maker probe_maker example_settings" "msg_Index rar_request"
      "verified_world 1" 1 rar_request]
    n i a p r
  show ?thesis by auto
qed

subsection \<open>Reserved commands\<close>

lemma sm_Error_fields:
  "mux_m (mux (sm_Error err sm)) = mux_m (mux sm)"
  "mux_idx (mux (sm_Error err sm)) = mux_idx (mux sm)"
  "mux_e (mux (sm_Error err sm)) = mux_e (mux sm) @ [err]"
  "cfg (sm_Error err sm) = cfg sm"
  "supportedApps (sm_Error err sm) = supportedApps sm"
  by (simp_all add: sm_Error_def mux_Error_def)

text \<open>
  Claim C2, as stated, fails on the code: \<^verbatim>\<open>Handle\<close> takes the method value
  \<^verbatim>\<open>handler.ServeDIAM\<close> before \<^verbatim>\<open>HandleFunc\<close> looks at the command, so registering the
  nil handler for \<^verbatim>\<open>"CER"\<close> panics, and no report is pushed.
\<close>

theorem Handle_nil_reserved_counterexample:
  "Handle ''CER'' None (New example_dict probe_maker probe_maker example_settings) =
     Inl nil_pointer_dereference"
  by (simp add: Handle_def)

text \<open>
  Claim C2, amended. Registering a handler that is not nil for one of the names
  \<^verbatim>\<open>"CER"\<close>, \<^verbatim>\<open>"CEA"\<close>, \<^verbatim>\<open>"DWR"\<close> through \<^verbatim>\<open>Handle\<close> or \<^verbatim>\<open>HandleFunc\<close>, or any handler for
  one of the three reserved indices through \<^verbatim>\<open>HandleIdx\<close>, returns without a panic,
  leaves both routing tables as they were and pushes exactly one error report, which
  names the rejected command, to the error channel.
\<close>

theorem reserved_registration_rejected:
  "(cmd \<in> {''CER'', ''CEA'', ''DWR''} \<longrightarrow>
      mux_m (mux (HandleFunc cmd handler sm)) = mux_m (mux sm) \<and>
      mux_idx (mux (HandleFunc cmd handler sm)) = mux_idx (mux sm) \<and>
      mux_e (mux (HandleFunc cmd handler sm)) =
        mux_e (mux sm) @ [\<lparr>er_Error = cannot_overwrite_cmd cmd, er_Message = None\<rparr>] \<and>
      Handle cmd (Some handler) sm = Inr (HandleFunc cmd handler sm)) \<and>
   (idx \<in> {baseCERIdx, baseCEAIdx, baseDWRIdx} \<longrightarrow>
      (\<exists>sm'. HandleIdx idx any_handler sm = Inr sm' \<and>
             mux_m (mux sm') = mux_m (mux sm) \<and>
             mux_idx (mux sm') = mux_idx (mux sm) \<and>
             mux_e (mux sm') =
               mux_e (mux sm) @ [\<lparr>er_Error = cannot_overwrite_idx idx, er_Message = None\<rparr>]))"
  by (auto simp: HandleFunc_def HandleIdx_def Handle_def sm_Error_fields)

subsection \<open>Construction\<close>

lemma New_fields:
  "cfg (New d hCER hDWR s) = promote_address s"
  "supportedApps (New d hCER hDWR s) = PrepareSupportedApps d (SupportedApps (promote_address s))"
  "mux_e (mux (New d hCER hDWR s)) = []"
  by (simp_all add: New_def Let_def mux_Handle_def mux_HandleIdx_def NewServeMux_def)

lemma base_idx_distinct: "baseCERIdx \<noteq> baseDWRIdx" "baseCEAIdx \<noteq> baseDWRIdx" "baseCERIdx \<noteq> baseCEAIdx"
  by (simp_all add: baseCERIdx_def baseDWRIdx_def baseCEAIdx_def CapabilitiesExchange_def
      DeviceWatchdog_def)

lemma New_tables:
  "mux_m (mux (New d hCER hDWR s)) ''CER'' =
     Some (hCER (promote_address s) (PrepareSupportedApps d (SupportedApps (promote_address s))))"
  "mux_m (mux (New d hCER hDWR s)) ''DWR'' =
     Some (handshakeOK
       (hDWR (promote_address s) (PrepareSupportedApps d (SupportedApps (promote_address s)))))"
  "mux_idx (mux (New d hCER hDWR s)) baseCERIdx =
     Some (hCER (promote_address s) (PrepareSupportedApps d (SupportedApps (promote_address s))))"
  "mux_idx (mux (New d hCER hDWR s)) baseDWRIdx =
     Some (hDWR (promote_address s) (PrepareSupportedApps d (SupportedApps (promote_address s))))"
  by (simp_all add: New_def Let_def mux_Handle_def mux_HandleIdx_def NewServeMux_def
      base_idx_distinct)

text \<open>
  On a state machine that \<^verbatim>\<open>New\<close> has just built, whose error channel is empty.
\<close>

theorem reserved_registration_rejected_witness:
  "map_sum id (\<lambda>sm'. mux_e (mux sm'))
     (Handle ''CER'' (Some probe) (New example_dict probe_maker probe_maker example_settings))
     = Inr [\<lparr>er_Error = cannot_overwrite_cmd ''CER'', er_Message = None\<rparr>] \<and>
   map_sum id (\<lambda>sm'. mux_m (mux sm'))
     (Handle ''CER'' (Some probe) (New example_dict probe_maker probe_maker example_settings))
     = Inr (mux_m (mux (New example_dict probe_maker probe_maker example_settings))) \<and>
   map_sum id (\<lambda>sm'. mux_idx (mux sm'))
     (HandleIdx baseCEAIdx None (New example_dict probe_maker probe_maker example_settings))
     = Inr (mux_idx (mux (New example_dict probe_maker probe_maker example_settings))) \<and>
   map_sum id (\<lambda>sm'. mux_e (mux sm'))
     (HandleIdx baseCEAIdx None (New example_dict probe_maker probe_maker example_settings))
     = Inr [\<lparr>er_Error = cannot_overwrite_idx baseCEAIdx, er_Message = None\<rparr>]"
  using reserved_registration_rejected [of "''CER''" probe
      "New example_dict probe_maker probe_maker example_settings" baseCEAIdx None]
  by (auto simp: New_fields)

text \<open>
  Claim C3 fails on the code. \<^verbatim>\<open>New\<close> wraps the Device-Watchdog-Request handler in
  \<^verbatim>\<open>handshakeOK\<close> when it registers it under the name \<^verbatim>\<open>"DWR"\<close>, and registers it bare
  under \<^verbatim>\<open>baseDWRIdx\<close> (\<open>New_tables\<close>). On the connection 1, which has no peer context,
  the handler stored under the index runs its body (it writes), while the handler stored
  under the name does nothing.
\<close>

theorem New_DWR_index_not_gated:
  "map_option (\<lambda>g. written (g 1 dwr_request fresh_world))
     (mux_idx (mux (New example_dict probe_maker probe_maker example_settings)) baseDWRIdx)
     = Some [(1, dwr_request)] \<and>
   map_option (\<lambda>g. written (g 1 dwr_request fresh_world))
     (mux_m (mux (New example_dict probe_maker probe_maker example_settings)) ''DWR'')
     = Some [] \<and>
   FromContext (contexts fresh_world 1) = None"
  by (simp add: New_tables probe_maker_def probe_def handshakeOK_def FromContext_def
      fresh_world_def)

text \<open>
  Claim C9. When the list \<^verbatim>\<open>HostIPAddresses\<close> is empty and the deprecated field
  \<^verbatim>\<open>HostIPAddress\<close> is not, the settings of the state machine that \<^verbatim>\<open>New\<close> builds hold
  the list of exactly that one address; a list that is not empty is left as it is (as is
  an empty one when the deprecated field is empty too). No other setting changes, and
  the handlers \<^verbatim>\<open>New\<close> installs are built from the settings after the promotion.
\<close>

theorem New_promotes_legacy_address:
  "(HostIPAddresses settings = [] \<and> HostIPAddress settings \<noteq> [] \<longrightarrow>
      HostIPAddresses (cfg (New d hCER hDWR settings)) = [HostIPAddress settings]) \<and>
   (HostIPAddresses settings \<noteq> [] \<longrightarrow>
      HostIPAddresses (cfg (New d hCER hDWR settings)) = HostIPAddresses settings) \<and>
   (HostIPAddresses settings = [] \<and> HostIPAddress settings = [] \<longrightarrow>
      HostIPAddresses (cfg (New d hCER hDWR settings)) = []) \<and>
   cfg (New d hCER hDWR settings) =
     settings\<lparr>HostIPAddresses := HostIPAddresses (cfg (New d hCER hDWR settings))\<rparr> \<and>
   mux_m (mux (New d hCER hDWR settings)) ''CER'' =
     Some (hCER (cfg (New d hCER hDWR settings)) (supportedApps (New d hCER hDWR settings)))"
  by (auto simp: New_fields New_tables promote_address_def)

theorem New_promotes_legacy_address_witness:
  "HostIPAddresses (cfg (New example_dict probe_maker probe_maker example_settings)) =
     [[127, 0, 0, 1]] \<and>
   HostIPAddresses (cfg (New example_dict probe_maker probe_maker
     (example_settings\<lparr>HostIPAddresses := [[10, 0, 0, 1], [10, 0, 0, 2]]\<rparr>))) =
     [[10, 0, 0, 1], [10, 0, 0, 2]]"
  using New_promotes_legacy_address [of example_settings example_dict probe_maker probe_maker]
    New_promotes_legacy_address [of "example_settings\<lparr>HostIPAddresses := [[10, 0, 0, 1], [10, 0, 0, 2]]\<rparr>"
      example_dict probe_maker probe_maker]
  by (simp add: example_settings_def)

subsection \<open>Handshake notification\<close>

lemma cer_answer_valid:
  "peer_identity m = Some md \<Longrightarrow>
     cer_answer settings apps c m w = w\<lparr>written := written w @ [(c, successCEA settings apps m)]\<rparr>"
  by (simp add: cer_answer_def)

lemma cer_mark_fresh:
  "peer_identity m = Some md \<Longrightarrow> FromContext (contexts w c) = None \<Longrightarrow>
     cer_mark_and_notify c m w =
       w\<lparr>contexts := (contexts w)(c := \<lparr>ctx_peer = Some md\<rparr>), hsNotifyc := hsNotifyc w @ [c]\<rparr>"
  by (simp add: cer_mark_and_notify_def)

lemma cer_mark_verified:
  "FromContext (contexts w c) = Some md' \<Longrightarrow> cer_mark_and_notify c m w = w"
  by (simp add: cer_mark_and_notify_def split: option.splits)

text \<open>The six interleavings of two handlers of two steps each.\<close>

lemma shuffles_two_two:
  "shuffles [a1, b1] [a2, b2] =
     {[a1, b1, a2, b2], [a1, a2, b1, b2], [a1, a2, b2, b1],
      [a2, a1, b1, b2], [a2, a1, b2, b1], [a2, b2, a1, b1]}"
  by (auto simp: shuffles.simps)

text \<open>
  Claim C7. On a connection that has not passed the handshake, two well-formed
  Capabilities-Exchange-Requests (an original and a retransmission), served one after the
  other or with their steps interleaved in any way, put the connection on the handshake
  notification channel exactly once, and each request gets its success answer; nothing
  is reported and the connection ends verified.
\<close>

theorem two_CER_notify_once:
  assumes fresh: "FromContext (contexts w c) = None"
      and v1: "peer_identity m1 \<noteq> None"
      and v2: "peer_identity m2 \<noteq> None"
      and sched: "sched \<in> shuffles (cer_steps settings apps c m1) (cer_steps settings apps c m2)"
  shows "hsNotifyc (run sched w) = hsNotifyc w @ [c] \<and>
         (written (run sched w) =
            written w @ [(c, successCEA settings apps m1), (c, successCEA settings apps m2)] \<or>
          written (run sched w) =
            written w @ [(c, successCEA settings apps m2), (c, successCEA settings apps m1)]) \<and>
         reported (run sched w) = reported w \<and>
         FromContext (contexts (run sched w) c) \<noteq> None"
proof -
  from v1 obtain md1 where md1: "peer_identity m1 = Some md1" by auto
  from v2 obtain md2 where md2: "peer_identity m2 = Some md2" by auto
  note defs = cer_answer_def cer_mark_and_notify_def FromContext_def md1 md2
  from sched consider
      "sched = [cer_answer settings apps c m1, cer_mark_and_notify c m1,
                cer_answer settings apps c m2, cer_mark_and_notify c m2]"
    | "sched = [cer_answer settings apps c m1, cer_answer settings apps c m2,
                cer_mark_and_notify c m1, cer_mark_and_notify c m2]"
    | "sched = [cer_answer settings apps c m1, cer_answer settings apps c m2,
                cer_mark_and_notify c m2, cer_mark_and_notify c m1]"
    | "sched = [cer_answer settings apps c m2, cer_answer settings apps c m1,
                cer_mark_and_notify c m1, cer_mark_and_notify c m2]"
    | "sched = [cer_answer settings apps c m2, cer_answer settings apps c m1,
                cer_mark_and_notify c m2, cer_mark_and_notify c m1]"
    | "sched = [cer_answer settings apps c m2, cer_mark_and_notify c m2,
                cer_answer settings apps c m1, cer_mark_and_notify c m1]"
    unfolding cer_steps_def shuffles_two_two by blast
  then show ?thesis
  proof cases
    case 1
    with fresh show ?thesis by (simp add: defs)
  next
    case 2
    with fresh show ?thesis by (simp add: defs)
  next
    case 3
    with fresh show ?thesis by (simp add: defs)
  next
    case 4
    with fresh show ?thesis by (simp add: defs)
  next
    case 5
    with fresh show ?thesis by (simp add: defs)
  next
    case 6
    with fresh show ?thesis by (simp add: defs)
  qed
qed


theorem two_CER_notify_once_witness:
  "hsNotifyc (handleCER example_settings [] 1 cer_request
      (handleCER example_settings [] 1 cer_request fresh_world)) = [1] \<and>
   hsNotifyc (run [cer_answer example_settings [] 1 cer_request,
                   cer_answer example_settings [] 1 cer_request,
                   cer_mark_and_notify 1 cer_request,
                   cer_mark_and_notify 1 cer_request] fresh_world) = [1] \<and>
   written (run [cer_answer example_settings [] 1 cer_request,
                 cer_answer example_settings [] 1 cer_request,
                 cer_mark_and_notify 1 cer_request,
                 cer_mark_and_notify 1 cer_request] fresh_world) =
     [(1, successCEA example_settings [] cer_request),
      (1, successCEA example_settings [] cer_request)] \<and>
   find_Result_Code (msg_AVPs (successCEA example_settings [] cer_request)) = Some Success"
proof -
  have f: "FromContext (contexts fresh_world 1) = None"
    by (simp add: FromContext_def fresh_world_def)
  have v: "peer_identity cer_request \<noteq> None"
    by (simp add: peer_identity_def cer_request_def)
  have s1: "cer_steps example_settings [] 1 cer_request @ cer_steps example_settings [] 1 cer_request
      \<in> shuffles (cer_steps example_settings [] 1 cer_request)
          (cer_steps example_settings [] 1 cer_request)"
    by (simp add: cer_steps_def shuffles_two_two)
  have s2: "[cer_answer example_settings [] 1 cer_request,
             cer_answer example_settings [] 1 cer_request,
             cer_mark_and_notify 1 cer_request,
             cer_mark_and_notify 1 cer_request]
      \<in> shuffles (cer_steps example_settings [] 1 cer_request)
          (cer_steps example_settings [] 1 cer_request)"
    by (simp add: cer_steps_def shuffles_two_two)
  have h: "handleCER example_settings [] 1 cer_request
      (handleCER example_settings [] 1 cer_request fresh_world) =
      run (cer_steps example_settings [] 1 cer_request @
           cer_steps example_settings [] 1 cer_request) fresh_world"
    by (simp add: handleCER_def cer_steps_def)
  have r: "find_Result_Code (msg_AVPs (successCEA example_settings [] cer_request)) = Some Success"
    by (simp add: successCEA_def)
  have e: "hsNotifyc fresh_world = []" "written fresh_world = []"
    by (simp_all add: fresh_world_def)
  from two_CER_notify_once [OF f v v s1] two_CER_notify_once [OF f v v s2] h r e
  show ?thesis by simp
qed

end
